theory Spec2Isabelle
  imports Main "HOL-Library.List_Lexorder" "HOL-Library.Char_ord"
begin

section \<open>JavaScript string helpers\<close>

text \<open>
  Strings are lists of 8-bit characters. A code point beyond ASCII is carried as its
  UTF-8 bytes, exactly as the source files store it; the operations below only compare,
  concatenate and search, so the choice of code unit does not matter for them.
\<close>

definition startsWith :: "string \<Rightarrow> string \<Rightarrow> bool" where
  "startsWith s p = (take (length p) s = p)"

fun includes_str :: "string \<Rightarrow> string \<Rightarrow> bool" where
  "includes_str [] p = (p = [])"
| "includes_str (c # cs) p = (startsWith (c # cs) p \<or> includes_str cs p)"

text \<open>
  \<open>String.prototype.trim\<close> removes white space and line terminators from both ends.
  These are the code points it removes, in UTF-8: U+0009 to U+000D, U+0020, U+00A0,
  U+1680, U+2000 to U+200A, U+2028, U+2029, U+202F, U+205F, U+3000 and U+FEFF.
\<close>

definition whiteSpace :: "string list" where
  "whiteSpace =
     [[CHR 0x09], [CHR 0x0A], [CHR 0x0B], [CHR 0x0C], [CHR 0x0D], [CHR 0x20],
      [CHR 0xC2, CHR 0xA0], [CHR 0xE1, CHR 0x9A, CHR 0x80]]
     @ map (\<lambda>b. [CHR 0xE2, CHR 0x80, b])
         [CHR 0x80, CHR 0x81, CHR 0x82, CHR 0x83, CHR 0x84, CHR 0x85, CHR 0x86, CHR 0x87,
          CHR 0x88, CHR 0x89, CHR 0x8A, CHR 0xA8, CHR 0xA9, CHR 0xAF]
     @ [[CHR 0xE2, CHR 0x81, CHR 0x9F], [CHR 0xE3, CHR 0x80, CHR 0x80],
        [CHR 0xEF, CHR 0xBB, CHR 0xBF]]"

text \<open>Removing, from the start of a string, every leading occurrence of one of \<open>ws\<close>.\<close>

fun stripStart :: "string list \<Rightarrow> string \<Rightarrow> string" where
  "stripStart ws [] = []"
| "stripStart ws (c # cs) =
     (case find (startsWith (c # cs)) ws of
        None \<Rightarrow> c # cs
      | Some w \<Rightarrow> stripStart ws (drop (length w - 1) cs))"

definition trim :: "string \<Rightarrow> string" where
  "trim s = rev (stripStart (map rev whiteSpace) (rev (stripStart whiteSpace s)))"

text \<open>\<open>x || d\<close> on an optional string: \<open>undefined\<close>, \<open>null\<close> and \<open>''\<close> are falsy.\<close>

fun orElse :: "string option \<Rightarrow> string \<Rightarrow> string" where
  "orElse None d = d"
| "orElse (Some s) d = (if s = [] then d else s)"

text \<open>Truthiness of \<open>string | null\<close>, as in \<open>!chatId\<close>.\<close>

fun truthy :: "string option \<Rightarrow> bool" where
  "truthy None = False"
| "truthy (Some s) = (s \<noteq> [])"

section \<open>Data model (src/lib/supabase.ts)\<close>

datatype msg_type = Text | Image | Ai

datatype mood = Happy | Sad | Angry | Anxious | Neutral

record user =
  u_id :: string
  u_email :: string
  u_name :: string
  u_username :: string
  u_avatar_url :: string
  u_status_message :: string
  u_last_active :: string
  u_created_at :: string

text \<open>
  A message of the visible list. Rows that come from
  \<open>select('id, content, created_at, sender_id, type, mood')\<close> carry no \<open>chat_id\<close>;
  the optimistic message does. \<open>created_at\<close> is an ISO-8601 string, compared as a string.
\<close>

record message =
  m_id :: string
  chat_id :: "string option"
  sender_id :: string
  content :: string
  mtype :: msg_type
  mood :: mood
  created_at :: string
  sender :: "user option"

text \<open>The authenticated user of \<open>useAuth\<close> and what a render of the hook closes over.\<close>

record auth_user =
  au_id :: string
  au_email :: "string option"

record env =
  chatId :: "string option"
  user :: "auth_user option"
  profile :: "user option"

text \<open>An error as the \<open>catch\<close> blocks look at it: \<open>error.message\<close> and \<open>error.code\<close>.\<close>

record js_error =
  e_message :: "string option"
  e_code :: "string option"

datatype 'a outcome = Data 'a | Error js_error

text \<open>What a handler asks of the outside world.\<close>

record insert_req =
  q_chat_id :: string
  q_sender_id :: string
  q_content :: string
  q_type :: msg_type
  q_mood :: mood

datatype effect =
    CreateRequest insert_req
  | SetTimeoutRetry nat string msg_type mood string
  | QueryMessages string nat
  | Subscribe string

section \<open>useMessages (src/hooks/useMessages.ts)\<close>

definition errorIsTimeout :: "js_error \<Rightarrow> bool" where
  "errorIsTimeout er = (case e_message er of None \<Rightarrow> False | Some m \<Rightarrow> includes_str m ''timeout'')"

text \<open>The failure, retrying and permanent-failure markers (a symbol and a space first).\<close>

definition failedMarker :: string where
  "failedMarker = [CHR 0xE2, CHR 0x9D, CHR 0x8C] @ '' Failed to send: ''"

definition retryingMarker :: string where
  "retryingMarker = [CHR 0xF0, CHR 0x9F, CHR 0x94, CHR 0x84] @ '' Retrying: ''"

definition permanentMarker :: string where
  "permanentMarker = [CHR 0xF0, CHR 0x9F, CHR 0x92, CHR 0x80] @ '' Failed permanently: ''"

text \<open>
  The sender summary that \<open>sendMessage\<close> and \<open>retryMessage\<close> build by hand; the two
  timestamps are the values of the two \<open>new Date().toISOString()\<close> calls.
\<close>

definition ownSender :: "auth_user \<Rightarrow> user option \<Rightarrow> string \<Rightarrow> string \<Rightarrow> user" where
  "ownSender u p lastActive createdDefault =
     \<lparr> u_id = au_id u,
       u_email = orElse (au_email u) '''',
       u_name = orElse (map_option u_name p) ''You'',
       u_username = orElse (map_option u_username p) '''',
       u_avatar_url = orElse (map_option u_avatar_url p)
                        (''https://api.dicebear.com/7.x/avataaars/svg?seed='' @ au_id u),
       u_status_message = orElse (map_option u_status_message p) '''',
       u_last_active = lastActive,
       u_created_at = orElse (map_option u_created_at p) createdDefault \<rparr>"

text \<open>
  \<open>sendMessage\<close> up to its \<open>await\<close>. \<open>nowMs\<close> and \<open>rnd\<close> are the renderings of
  \<open>Date.now()\<close> and \<open>Math.random()\<close>, \<open>now\<close> that of \<open>new Date().toISOString()\<close>.
  The result is the new list and the requests issued.
\<close>

definition optimisticIdOf :: "string \<Rightarrow> string \<Rightarrow> string" where
  "optimisticIdOf nowMs rnd = ''temp-'' @ nowMs @ ''-'' @ rnd"

definition sendMessage ::
  "env \<Rightarrow> string \<Rightarrow> string \<Rightarrow> string \<Rightarrow> string \<Rightarrow> msg_type \<Rightarrow> mood \<Rightarrow> message list
     \<Rightarrow> message list \<times> effect list" where
  "sendMessage e nowMs rnd now c ty md prev =
     (case chatId e of
        None \<Rightarrow> (prev, [])
      | Some cid \<Rightarrow>
          (case user e of
             None \<Rightarrow> (prev, [])
           | Some u \<Rightarrow>
               if cid = [] \<or> trim c = [] then (prev, [])
               else
                 (prev @ [\<lparr> m_id = optimisticIdOf nowMs rnd, chat_id = Some cid,
                            sender_id = au_id u, content = trim c, mtype = ty, mood = md,
                            created_at = now, sender = Some (ownSender u (profile e) now now) \<rparr>],
                  [CreateRequest \<lparr> q_chat_id = cid, q_sender_id = au_id u,
                                    q_content = trim c, q_type = ty, q_mood = md \<rparr>])))"

text \<open>
  \<open>sendMessage\<close> after its \<open>await\<close>: the reply is the stored row, or an error (one the
  service returned, or the rejection of the 30 second race, whose message is
  \<open>Message send timeout\<close>). The guard of the first half has passed, so the user is known.
\<close>

definition sendMessage_reply ::
  "auth_user \<Rightarrow> user option \<Rightarrow> string \<Rightarrow> string \<Rightarrow> string \<Rightarrow> string \<Rightarrow> msg_type \<Rightarrow> mood
     \<Rightarrow> message outcome \<Rightarrow> message list \<Rightarrow> message list \<times> effect list" where
  "sendMessage_reply u p now1 now2 optimisticId trimmedContent ty md reply prev =
     (case reply of
        Data d \<Rightarrow>
          (map (\<lambda>msg. if m_id msg = optimisticId
                      then d\<lparr>sender := Some (ownSender u p now1 now2)\<rparr> else msg) prev, [])
      | Error er \<Rightarrow>
          (map (\<lambda>msg. if m_id msg = optimisticId
                      then msg\<lparr>m_id := ''failed-'' @ optimisticId,
                               content := failedMarker @ trimmedContent,
                               mtype := Text\<rparr>
                      else msg) prev,
           if errorIsTimeout er
           then [SetTimeoutRetry 2000 trimmedContent ty md optimisticId] else []))"

text \<open>\<open>retryMessage\<close> up to its \<open>await\<close>, and after it.\<close>

definition retryMessage ::
  "env \<Rightarrow> string \<Rightarrow> msg_type \<Rightarrow> mood \<Rightarrow> string \<Rightarrow> message list
     \<Rightarrow> message list \<times> effect list" where
  "retryMessage e c ty md originalOptimisticId prev =
     (case chatId e of
        None \<Rightarrow> (prev, [])
      | Some cid \<Rightarrow>
          (case user e of
             None \<Rightarrow> (prev, [])
           | Some u \<Rightarrow>
               if cid = [] then (prev, [])
               else
                 (map (\<lambda>msg. if m_id msg = ''failed-'' @ originalOptimisticId
                             then msg\<lparr>content := retryingMarker @ c\<rparr> else msg) prev,
                  [CreateRequest \<lparr> q_chat_id = cid, q_sender_id = au_id u,
                                    q_content = c, q_type = ty, q_mood = md \<rparr>])))"

definition retryMessage_reply ::
  "auth_user \<Rightarrow> user option \<Rightarrow> string \<Rightarrow> string \<Rightarrow> string \<Rightarrow> string
     \<Rightarrow> message outcome \<Rightarrow> message list \<Rightarrow> message list \<times> effect list" where
  "retryMessage_reply u p now1 now2 c originalOptimisticId reply prev =
     (case reply of
        Data d \<Rightarrow>
          (map (\<lambda>msg. if m_id msg = ''failed-'' @ originalOptimisticId
                      then d\<lparr>sender := Some (ownSender u p now1 now2)\<rparr> else msg) prev, [])
      | Error er \<Rightarrow>
          (map (\<lambda>msg. if m_id msg = ''failed-'' @ originalOptimisticId
                      then msg\<lparr>content := permanentMarker @ c\<rparr> else msg) prev, []))"

text \<open>
  The updater that the realtime INSERT handler of \<open>subscribeToMessages\<close> passes to
  \<open>setMessages\<close>, and the handler after its two lookups (\<open>maybeSingle\<close> may give no row).
\<close>

definition mergeInsert :: "message \<Rightarrow> message list \<Rightarrow> message list" where
  "mergeInsert messageWithSender prev =
     (let filteredPrev =
            filter (\<lambda>msg. \<not> (startsWith (m_id msg) ''temp-''
                              \<and> content msg = content messageWithSender
                              \<and> sender_id msg = sender_id messageWithSender)) prev
      in if list_ex (\<lambda>msg. m_id msg = m_id messageWithSender) filteredPrev
         then filteredPrev
         else filteredPrev @ [messageWithSender])"

definition onInsert :: "message option \<Rightarrow> user option \<Rightarrow> message list \<Rightarrow> message list" where
  "onInsert data sndr prev =
     (case data of None \<Rightarrow> prev | Some d \<Rightarrow> mergeInsert (d\<lparr>sender := sndr\<rparr>) prev)"

text \<open>Merging a sequence of realtime inserts, in their order of arrival.\<close>

definition mergeAll :: "message list \<Rightarrow> message list \<Rightarrow> message list" where
  "mergeAll rows prev = foldl (\<lambda>l r. mergeInsert r l) prev rows"

text \<open>
  \<open>fetchMessages\<close>: the query it issues, and what it does with the reply and the sender
  rows (\<open>senders\<close> may be \<open>null\<close>). On a timeout it issues the smaller fallback query,
  whose reply \<open>fetchMessages_fallback_reply\<close> handles. The \<open>loading\<close> flag is not part of
  the list and is left out.
\<close>

definition attachSenders :: "user list option \<Rightarrow> message list \<Rightarrow> message list" where
  "attachSenders senders data =
     map (\<lambda>msg. msg\<lparr>sender := (case senders of
                                    None \<Rightarrow> None
                                  | Some ss \<Rightarrow> find (\<lambda>s. u_id s = sender_id msg) ss)\<rparr>) data"



definition fetchMessages_fallback_reply ::
  "message list option outcome \<Rightarrow> user list option \<Rightarrow> message list" where
  "fetchMessages_fallback_reply reply senders =
     (case reply of
        Data data \<Rightarrow>
          (case data of
             None \<Rightarrow> []
           | Some rows \<Rightarrow> if rows = [] then [] else rev (attachSenders senders rows))
      | Error er \<Rightarrow> [])"


section \<open>ChatView: the manual retry (components/ChatView.tsx)\<close>

text \<open>\<open>content.replace(/^(Failed to send: |Failed permanently: )/, '')\<close>.\<close>

definition stripFailurePrefix :: "string \<Rightarrow> string" where
  "stripFailurePrefix s =
     (if startsWith s ''Failed to send: '' then drop (length ''Failed to send: '') s
      else if startsWith s ''Failed permanently: ''
      then drop (length ''Failed permanently: '') s
      else s)"

text \<open>
  \<open>handleRetryMessage\<close>: \<open>None\<close> when it returns at its guard, otherwise the arguments of
  its call of \<open>sendMessage\<close>. The guard returns unless the identifier starts with
  \<open>failed-\<close> and the content includes \<open>Failed to send:\<close>.
\<close>

definition handleRetryMessage :: "message \<Rightarrow> (string \<times> msg_type \<times> mood) option" where
  "handleRetryMessage message =
     (if startsWith (m_id message) ''failed-'' \<and> includes_str (content message) ''Failed to send:''
      then Some (stripFailurePrefix (content message), mtype message, mood message)
      else None)"

section \<open>useTyping (src/hooks/useTyping.ts)\<close>

record typing_user =
  t_id :: string
  t_name :: string
  t_avatar_url :: string

record typing_payload =
  user_id :: string
  user_name :: string
  user_avatar :: string
  is_typing :: bool

text \<open>
  The typing list and the pending \<open>setTimeout\<close> callbacks, each with the time (in ms) at
  which it is due and the \<open>user_id\<close> it closes over. No callback is ever cancelled.
\<close>

record typing_state =
  typingUsers :: "typing_user list"
  timers :: "(nat \<times> string) list"

text \<open>The broadcast handler, run at time \<open>now\<close> by the user \<open>me\<close>.\<close>

definition onTyping :: "string \<Rightarrow> nat \<Rightarrow> typing_payload \<Rightarrow> typing_state \<Rightarrow> typing_state" where
  "onTyping me now p st =
     (if user_id p = me then st
      else
        \<lparr> typingUsers =
            (if is_typing p
             then (if list_ex (\<lambda>u. t_id u = user_id p) (typingUsers st)
                   then typingUsers st
                   else typingUsers st @ [\<lparr> t_id = user_id p, t_name = user_name p,
                                             t_avatar_url = user_avatar p \<rparr>])
             else filter (\<lambda>u. t_id u \<noteq> user_id p) (typingUsers st)),
          timers =
            (if is_typing p then timers st @ [(now + 3000, user_id p)] else timers st) \<rparr>)"

text \<open>The callback of a timer, and the event loop reaching time \<open>t\<close>: every callback due
  by then runs, in the order in which it was scheduled, and leaves the queue.\<close>

definition timerCallback :: "string \<Rightarrow> typing_user list \<Rightarrow> typing_user list" where
  "timerCallback uid prev = filter (\<lambda>u. t_id u \<noteq> uid) prev"

definition advance :: "nat \<Rightarrow> typing_state \<Rightarrow> typing_state" where
  "advance t st =
     \<lparr> typingUsers = fold (\<lambda>tm. timerCallback (snd tm))
                          (filter (\<lambda>tm. fst tm \<le> t) (timers st)) (typingUsers st),
       timers = filter (\<lambda>tm. t < fst tm) (timers st) \<rparr>"

text \<open>A run of the hook over broadcasts, each with its arrival time.\<close>

fun run :: "string \<Rightarrow> (nat \<times> typing_payload) list \<Rightarrow> typing_state \<Rightarrow> typing_state" where
  "run me [] st = st"
| "run me (ev # evs) st = run me evs (onTyping me (fst ev) (snd ev) (advance (fst ev) st))"

text \<open>
  The invariant behind the expiry of a typing entry: while \<open>uid\<close> is in the typing list,
  a callback for \<open>uid\<close> that is due by time \<open>B\<close> is still pending.
\<close>

definition expiring :: "string \<Rightarrow> nat \<Rightarrow> typing_state \<Rightarrow> bool" where
  "expiring uid B st =
     ((\<exists>u \<in> set (typingUsers st). t_id u = uid)
        \<longrightarrow> (\<exists>tm \<in> set (timers st). snd tm = uid \<and> fst tm \<le> B))"

section \<open>Sample values\<close>

definition aliceAuth :: auth_user where
  "aliceAuth = \<lparr> au_id = ''u1'', au_email = None \<rparr>"

definition envA :: env where
  "envA = \<lparr> chatId = Some ''chatA'', user = Some aliceAuth, profile = None \<rparr>"


definition envNoChat :: env where
  "envNoChat = \<lparr> chatId = None, user = Some aliceAuth, profile = None \<rparr>"

definition envNoUser :: env where
  "envNoUser = \<lparr> chatId = Some ''chatA'', user = None, profile = None \<rparr>"

definition rowM1 :: message where
  "rowM1 = \<lparr> m_id = ''m1'', chat_id = None, sender_id = ''u2'', content = ''hi'',
             mtype = Text, mood = Neutral, created_at = ''2025-07-10T10:00:31.000Z'',
             sender = None \<rparr>"

definition rowM2 :: message where
  "rowM2 = \<lparr> m_id = ''m2'', chat_id = None, sender_id = ''u1'', content = ''hello'',
             mtype = Text, mood = Neutral, created_at = ''2025-07-10T10:00:33.000Z'',
             sender = None \<rparr>"

definition timeoutError :: js_error where
  "timeoutError = \<lparr> e_message = Some ''Message send timeout'', e_code = None \<rparr>"

definition networkError :: js_error where
  "networkError = \<lparr> e_message = Some ''TypeError: Failed to fetch'', e_code = Some [] \<rparr>"

definition tempId :: string where
  "tempId = optimisticIdOf ''1752141600000'' ''0.5''"

definition provisionalEntry :: message where
  "provisionalEntry =
     \<lparr> m_id = tempId, chat_id = Some ''chatA'', sender_id = ''u1'', content = ''hello'',
       mtype = Text, mood = Happy, created_at = ''2025-07-10T10:00:00.000Z'', sender = None \<rparr>"

definition failedEntry :: message where
  "failedEntry = provisionalEntry\<lparr>m_id := ''failed-'' @ tempId,
                                   content := failedMarker @ ''hello''\<rparr>"

definition retryingEntry :: message where
  "retryingEntry = failedEntry\<lparr>content := retryingMarker @ ''hello''\<rparr>"

definition permFailedEntry :: message where
  "permFailedEntry = failedEntry\<lparr>content := permanentMarker @ ''hello''\<rparr>"

definition bobTyping :: typing_payload where
  "bobTyping = \<lparr> user_id = ''u2'', user_name = ''Bob'', user_avatar = ''b.png'',
                 is_typing = True \<rparr>"

definition bobStops :: typing_payload where
  "bobStops = \<lparr> user_id = ''u2'', user_name = ''Bob'', user_avatar = ''b.png'',
                is_typing = False \<rparr>"

definition carolTyping :: typing_payload where
  "carolTyping = \<lparr> user_id = ''u3'', user_name = ''Carol'', user_avatar = ''c.png'',
                   is_typing = True \<rparr>"

definition noTyping :: typing_state where
  "noTyping = \<lparr> typingUsers = [], timers = [] \<rparr>"

section \<open>Helper lemmas\<close>

lemma map_if_absent: "\<forall>m \<in> set xs. \<not> P m \<Longrightarrow> map (\<lambda>m. if P m then f m else m) xs = xs"
  by (induction xs) auto

lemma set_fold_timerCallback:
  "set (fold (\<lambda>tm. timerCallback (snd tm)) tms us) = {u \<in> set us. t_id u \<notin> snd ` set tms}"
  by (induction tms arbitrary: us) (auto simp: timerCallback_def)

lemma typing_advance:
  "(\<exists>u \<in> set (typingUsers (advance t st)). t_id u = i)
     = ((\<exists>u \<in> set (typingUsers st). t_id u = i)
        \<and> (\<forall>tm \<in> set (timers st). fst tm \<le> t \<longrightarrow> snd tm \<noteq> i))"
  unfolding advance_def by (simp add: set_fold_timerCallback) force

lemma expiring_advance: "expiring uid B st \<Longrightarrow> expiring uid B (advance t st)"
  unfolding expiring_def typing_advance
  by (fastforce simp: advance_def)

lemma expiring_onTyping:
  "expiring uid B st \<Longrightarrow> \<not> (is_typing q \<and> user_id q = uid)
     \<Longrightarrow> expiring uid B (onTyping me t q st)"
  unfolding expiring_def
  by (auto simp: onTyping_def list_ex_iff)

lemma expiring_run:
  "expiring uid B st \<Longrightarrow> \<forall>ev \<in> set evs. \<not> (is_typing (snd ev) \<and> user_id (snd ev) = uid)
     \<Longrightarrow> expiring uid B (run me evs st)"
  by (induction evs arbitrary: st) (simp_all add: expiring_onTyping expiring_advance)

lemma expiring_start:
  "user_id p \<noteq> me \<Longrightarrow> is_typing p \<Longrightarrow> expiring (user_id p) (T + 3000) (onTyping me T p st)"
  by (simp add: expiring_def onTyping_def)

lemma expiring_end:
  "expiring uid B st \<Longrightarrow> \<not> list_ex (\<lambda>u. t_id u = uid) (typingUsers (advance B st))"
  unfolding expiring_def list_ex_iff typing_advance by auto

lemma sorted_mergeInsert:
  assumes "sorted (map created_at (prev @ r # rows))"
  shows "sorted (map created_at (mergeInsert r prev @ rows))"
proof -
  let ?F = "filter (\<lambda>msg. \<not> (startsWith (m_id msg) ''temp-''
                              \<and> content msg = content r
                              \<and> sender_id msg = sender_id r)) prev"
  from assms have s1: "sorted (map created_at prev)"
    and s2: "sorted (map created_at (r # rows))"
    and s3: "\<forall>x \<in> set prev. \<forall>y \<in> set (r # rows). created_at x \<le> created_at y"
    by (auto simp: sorted_append)
  have f1: "sorted (map created_at ?F)" using s1 by (rule sorted_filter)
  have f2: "set ?F \<subseteq> set prev" by auto
  show ?thesis
    using f1 f2 s2 s3 by (auto simp: mergeInsert_def Let_def sorted_append)
qed

section \<open>The visible list: identifiers and the realtime merge\<close>

text \<open>
  Where the invariant of unique identifiers does hold: the realtime merge keeps a list of
  distinct identifiers distinct, it leaves no provisional (\<open>temp-\<close>) entry with the
  sender and content of the row it merges, and the reply of the first attempt keeps
  identifiers distinct when the row is not yet in the list.
\<close>

lemma mergeInsert_distinct:
  "distinct (map m_id prev) \<Longrightarrow> distinct (map m_id (mergeInsert r prev))"
  by (auto simp: mergeInsert_def Let_def list_ex_iff distinct_map_filter)

lemma mergeInsert_drops_provisional:
  "m \<in> set (mergeInsert r prev) \<Longrightarrow> m \<noteq> r \<Longrightarrow>
     \<not> (startsWith (m_id m) ''temp-'' \<and> content m = content r \<and> sender_id m = sender_id r)"
  by (auto simp: mergeInsert_def Let_def split: if_splits)

lemma replace_distinct:
  assumes "distinct (map m_id xs)" and "\<forall>m \<in> set xs. m_id m \<noteq> m_id d"
  shows "distinct (map m_id (map (\<lambda>msg. if m_id msg = oid then d else msg) xs))"
proof -
  let ?f = "\<lambda>i. if i = oid then m_id d else i"
  have eq: "map m_id (map (\<lambda>msg. if m_id msg = oid then d else msg) xs) = map ?f (map m_id xs)"
    by (induction xs) auto
  have inj: "inj_on ?f (set (map m_id xs))"
    using assms(2) by (auto simp: inj_on_def)
  have "distinct (map ?f (map m_id xs))"
    using assms(1) inj by (simp only: distinct_map simp_thms)
  then show ?thesis by (simp only: eq)
qed

lemma sendMessage_reply_distinct:
  "distinct (map m_id prev) \<Longrightarrow> \<forall>m \<in> set prev. m_id m \<noteq> m_id d \<Longrightarrow>
     distinct (map m_id (fst (sendMessage_reply u p now1 now2 oid c ty md (Data d) prev)))"
  using replace_distinct [of prev "d\<lparr>sender := Some (ownSender u p now1 now2)\<rparr>" oid]
  by (simp add: sendMessage_reply_def)

text \<open>
  When the push was merged first, the provisional entry is gone and the reply of the send
  changes nothing.
\<close>

lemma sendMessage_reply_absent:
  "\<not> list_ex (\<lambda>m. m_id m = oid) prev \<Longrightarrow>
     fst (sendMessage_reply u p now1 now2 oid c ty md reply prev) = prev"
  by (auto simp: sendMessage_reply_def list_ex_iff map_if_absent split: outcome.splits)

text \<open>
  Claim C1: at every instant the identifiers of the visible list are pairwise distinct,
  whatever the order of a send's direct reply and the push notification for the same row.
  The automatic retry breaks it. A send times out and its entry is re-tagged
  \<open>failed-temp-...\<close>; the retry inserts the row \<open>m2\<close>; the push notification for \<open>m2\<close>
  is merged before the retry's reply: the merge only removes entries whose identifier
  starts with \<open>temp-\<close>, so it appends \<open>m2\<close> next to the failed entry, and the reply then
  replaces the failed entry by \<open>m2\<close> as well. The list holds \<open>m2\<close> twice.
\<close>

theorem retry_reply_after_push_duplicates_id:
  "map m_id
     (fst (retryMessage_reply aliceAuth None ''2025-07-10T10:00:33.500Z''
             ''2025-07-10T10:00:33.500Z'' ''hello'' tempId (Data rowM2)
       (onInsert (Some rowM2) None
         (fst (retryMessage envA ''hello'' Text Neutral tempId
           (fst (sendMessage_reply aliceAuth None ''2025-07-10T10:00:30.000Z''
                   ''2025-07-10T10:00:30.000Z'' tempId ''hello'' Text Neutral (Error timeoutError)
             (fst (sendMessage envA ''1752141600000'' ''0.5'' ''2025-07-10T10:00:00.000Z''
                     ''hello'' Text Neutral [])))))))))
     = [''m2'', ''m2'']"
  by (simp add: sendMessage_def sendMessage_reply_def retryMessage_def retryMessage_reply_def
        onInsert_def mergeInsert_def envA_def aliceAuth_def rowM2_def tempId_def
        optimisticIdOf_def startsWith_def trim_def whiteSpace_def)

text \<open>
  Rows that are new to a list without provisional entries are appended in their order of
  arrival.
\<close>

lemma mergeInsert_appends:
  assumes "\<forall>m \<in> set prev. \<not> startsWith (m_id m) ''temp-''"
    and "\<forall>m \<in> set prev. m_id m \<noteq> m_id r"
  shows "mergeInsert r prev = prev @ [r]"
  using assms by (simp add: mergeInsert_def Let_def list_ex_iff)

lemma mergeAll_appends:
  "\<forall>m \<in> set (prev @ rows). \<not> startsWith (m_id m) ''temp-'' \<Longrightarrow>
   distinct (map m_id (prev @ rows)) \<Longrightarrow> mergeAll rows prev = prev @ rows"
proof (induction rows arbitrary: prev)
  case Nil
  then show ?case by (simp add: mergeAll_def)
next
  case (Cons r rows)
  have "mergeInsert r prev = prev @ [r]"
    using Cons.prems by (intro mergeInsert_appends) (auto simp: image_iff)
  moreover have "mergeAll rows (prev @ [r]) = (prev @ [r]) @ rows"
    using Cons.prems by (intro Cons.IH) auto
  ultimately show ?case by (simp add: mergeAll_def)
qed

text \<open>
  Claim C2, as amended: the merge appends and never sorts. Remote inserts merged into a
  list give a list sorted ascending by creation timestamp when the list was sorted and
  the notifications arrive in ascending order of timestamp, none older than the list.
\<close>

theorem mergeAll_sorted_in_order:
  "sorted (map created_at (prev @ rows)) \<Longrightarrow> sorted (map created_at (mergeAll rows prev))"
proof (induction rows arbitrary: prev)
  case Nil
  then show ?case by (simp add: mergeAll_def)
next
  case (Cons r rows)
  have "sorted (map created_at (mergeInsert r prev @ rows))"
    using Cons.prems by (rule sorted_mergeInsert)
  then have "sorted (map created_at (mergeAll rows (mergeInsert r prev)))"
    by (rule Cons.IH)
  then show ?case by (simp add: mergeAll_def)
qed

theorem mergeAll_sorted_in_order_witness:
  "sorted (map created_at ([] @ [rowM1, rowM2]))
     \<and> sorted (map created_at (mergeAll [rowM1, rowM2] []))"
proof -
  have h: "sorted (map created_at ([] @ [rowM1, rowM2]))"
    by (simp add: rowM1_def rowM2_def)
  show ?thesis using h mergeAll_sorted_in_order [OF h] by simp
qed

text \<open>
  Claim C2 as stated fails: two rows with distinct, increasing timestamps that arrive
  newest first stay in their order of arrival.
\<close>

theorem merge_out_of_order_unsorted:
  "created_at rowM1 < created_at rowM2
     \<and> mergeAll [rowM2, rowM1] [] = [rowM2, rowM1]
     \<and> \<not> sorted (map created_at (mergeAll [rowM2, rowM1] []))"
  by (simp add: mergeAll_def mergeInsert_def rowM1_def rowM2_def startsWith_def)

section \<open>Failure and retry\<close>

text \<open>
  Claim C3, as amended: when the create request of a send fails, for whatever reason, the
  provisional entry keeps its place, its identifier gets the prefix \<open>failed-\<close> and its
  content becomes the failure marker followed by the trimmed content. One retry is
  scheduled after 2000 ms, with the same content, kind and mood, exactly when the error's
  message contains \<open>timeout\<close>; otherwise none is scheduled. The retry issues a create
  request with that content, kind and mood.
\<close>

theorem sendMessage_failure:
  assumes "i < length prev" and "m_id (prev ! i) = oid"
    and "chatId e = Some cid" and "cid \<noteq> []" and "user e = Some u"
  shows "length (fst (sendMessage_reply u p now1 now2 oid c ty md (Error er) prev)) = length prev
       \<and> m_id (fst (sendMessage_reply u p now1 now2 oid c ty md (Error er) prev) ! i)
           = ''failed-'' @ oid
       \<and> content (fst (sendMessage_reply u p now1 now2 oid c ty md (Error er) prev) ! i)
           = failedMarker @ c
       \<and> snd (sendMessage_reply u p now1 now2 oid c ty md (Error er) prev)
           = (if errorIsTimeout er then [SetTimeoutRetry 2000 c ty md oid] else [])
       \<and> snd (retryMessage e c ty md oid l)
           = [CreateRequest \<lparr> q_chat_id = cid, q_sender_id = au_id u, q_content = c,
                               q_type = ty, q_mood = md \<rparr>]"
  using assms by (simp add: sendMessage_reply_def retryMessage_def)

theorem sendMessage_failure_witness:
  "content (fst (sendMessage_reply aliceAuth None [] [] tempId ''hello'' Text Happy
                   (Error timeoutError) [provisionalEntry]) ! 0) = failedMarker @ ''hello''
   \<and> snd (sendMessage_reply aliceAuth None [] [] tempId ''hello'' Text Happy
            (Error timeoutError) [provisionalEntry])
       = [SetTimeoutRetry 2000 ''hello'' Text Happy tempId]
   \<and> snd (retryMessage envA ''hello'' Text Happy tempId [failedEntry])
       = [CreateRequest \<lparr> q_chat_id = ''chatA'', q_sender_id = ''u1'', q_content = ''hello'',
                           q_type = Text, q_mood = Happy \<rparr>]"
  using sendMessage_failure [of 0 "[provisionalEntry]" tempId envA "''chatA''" aliceAuth
      None "[]" "[]" "''hello''" Text Happy timeoutError "[failedEntry]"]
  by (simp add: provisionalEntry_def envA_def aliceAuth_def timeoutError_def errorIsTimeout_def
        startsWith_def)

text \<open>
  Claim C3 as stated fails for a network error: the request could not reach the service,
  the error's message is \<open>TypeError: Failed to fetch\<close>, and no retry is scheduled.
\<close>

theorem network_error_schedules_no_retry:
  "snd (sendMessage_reply aliceAuth None [] [] tempId ''hello'' Text Happy
          (Error networkError) [provisionalEntry]) = []"
  by (simp add: sendMessage_reply_def networkError_def errorIsTimeout_def startsWith_def)

text \<open>
  Claim C4: when the automatic retry of a failed send fails too, the failed entry keeps
  its place and identifier, its content becomes the permanent-failure marker followed by
  the content, every other entry is untouched, and nothing is scheduled: no further retry.
\<close>

theorem retry_failure_permanent:
  assumes "i < length prev" and "m_id (prev ! i) = ''failed-'' @ oid"
  shows "snd (retryMessage_reply u p now1 now2 c oid (Error er) prev) = []
       \<and> length (fst (retryMessage_reply u p now1 now2 c oid (Error er) prev)) = length prev
       \<and> m_id (fst (retryMessage_reply u p now1 now2 c oid (Error er) prev) ! i)
           = ''failed-'' @ oid
       \<and> content (fst (retryMessage_reply u p now1 now2 c oid (Error er) prev) ! i)
           = permanentMarker @ c
       \<and> (\<forall>j < length prev. m_id (prev ! j) \<noteq> ''failed-'' @ oid \<longrightarrow>
            fst (retryMessage_reply u p now1 now2 c oid (Error er) prev) ! j = prev ! j)"
  using assms by (simp add: retryMessage_reply_def)

theorem retry_failure_permanent_witness:
  "snd (retryMessage_reply aliceAuth None [] [] ''hello'' tempId (Error timeoutError)
          [rowM1, retryingEntry]) = []
   \<and> fst (retryMessage_reply aliceAuth None [] [] ''hello'' tempId (Error timeoutError)
          [rowM1, retryingEntry]) = [rowM1, permFailedEntry]"
proof -
  have a: "(1::nat) < length [rowM1, retryingEntry]" by simp
  have b: "m_id ([rowM1, retryingEntry] ! 1) = ''failed-'' @ tempId"
    by (simp add: retryingEntry_def failedEntry_def)
  note t = retry_failure_permanent [OF a b, of aliceAuth None "[]" "[]" "''hello''" timeoutError]
  have "fst (retryMessage_reply aliceAuth None [] [] ''hello'' tempId (Error timeoutError)
          [rowM1, retryingEntry]) = [rowM1, permFailedEntry]"
    by (simp add: retryMessage_reply_def retryingEntry_def permFailedEntry_def failedEntry_def
          provisionalEntry_def rowM1_def tempId_def optimisticIdOf_def)
  with t show ?thesis by simp
qed

text \<open>
  Claim C5: when the automatic retry of a failed send succeeds, the failed entry is
  replaced in place by the stored row (with the sender summary attached): the list keeps
  its length, the entry at that position carries the row's identifier and, the service
  having stored the content it was sent, the original content; other entries are untouched.
\<close>

theorem retry_success_in_place:
  assumes "i < length prev" and "m_id (prev ! i) = ''failed-'' @ oid" and "content d = c"
  shows "length (fst (retryMessage_reply u p now1 now2 c oid (Data d) prev)) = length prev
       \<and> fst (retryMessage_reply u p now1 now2 c oid (Data d) prev) ! i
           = d\<lparr>sender := Some (ownSender u p now1 now2)\<rparr>
       \<and> m_id (fst (retryMessage_reply u p now1 now2 c oid (Data d) prev) ! i) = m_id d
       \<and> content (fst (retryMessage_reply u p now1 now2 c oid (Data d) prev) ! i) = c
       \<and> (\<forall>j < length prev. m_id (prev ! j) \<noteq> ''failed-'' @ oid \<longrightarrow>
            fst (retryMessage_reply u p now1 now2 c oid (Data d) prev) ! j = prev ! j)"
  using assms by (simp add: retryMessage_reply_def)

theorem retry_success_in_place_witness:
  "m_id (fst (retryMessage_reply aliceAuth None [] [] ''hello'' tempId (Data rowM2)
               [retryingEntry, rowM1]) ! 0) = ''m2''
   \<and> content (fst (retryMessage_reply aliceAuth None [] [] ''hello'' tempId (Data rowM2)
               [retryingEntry, rowM1]) ! 0) = ''hello''
   \<and> fst (retryMessage_reply aliceAuth None [] [] ''hello'' tempId (Data rowM2)
               [retryingEntry, rowM1]) ! 1 = rowM1"
proof -
  have a: "(0::nat) < length [retryingEntry, rowM1]" by simp
  have b: "m_id ([retryingEntry, rowM1] ! 0) = ''failed-'' @ tempId"
    by (simp add: retryingEntry_def failedEntry_def)
  have c: "content rowM2 = ''hello''" by (simp add: rowM2_def)
  have d: "m_id ([retryingEntry, rowM1] ! 1) \<noteq> ''failed-'' @ tempId"
    by (simp add: rowM1_def)
  note t = retry_success_in_place [OF a b c, of aliceAuth None "[]" "[]"]
  from t d show ?thesis by (simp add: rowM2_def)
qed

text \<open>
  A notification for a row whose identifier is already in the list: the merge first drops
  the provisional entries with the row's sender and content, and only then looks for the
  identifier. It never makes the list longer, and a second merge of the same notification
  changes nothing more.
\<close>

lemma mergeInsert_present:
  assumes "list_ex (\<lambda>m. m_id m = m_id r) prev" and "\<not> startsWith (m_id r) ''temp-''"
  shows "mergeInsert r prev
           = filter (\<lambda>msg. \<not> (startsWith (m_id msg) ''temp-'' \<and> content msg = content r
                               \<and> sender_id msg = sender_id r)) prev"
  using assms by (auto simp: mergeInsert_def Let_def list_ex_iff)

lemma mergeInsert_unchanged:
  assumes "list_ex (\<lambda>m. m_id m = m_id r) prev"
    and "\<forall>msg \<in> set prev. \<not> (startsWith (m_id msg) ''temp-'' \<and> content msg = content r
                               \<and> sender_id msg = sender_id r)"
  shows "mergeInsert r prev = prev"
  using assms by (simp add: mergeInsert_def Let_def)

lemma mergeInsert_length:
  assumes "list_ex (\<lambda>m. m_id m = m_id r) prev"
  shows "length (mergeInsert r prev) \<le> length prev"
proof -
  let ?P = "\<lambda>msg. \<not> (startsWith (m_id msg) ''temp-'' \<and> content msg = content r
                      \<and> sender_id msg = sender_id r)"
  show ?thesis
  proof (cases "list_ex (\<lambda>m. m_id m = m_id r) (filter ?P prev)")
    case True
    then show ?thesis by (simp add: mergeInsert_def Let_def)
  next
    case False
    from assms obtain x where x: "x \<in> set prev" "m_id x = m_id r"
      by (auto simp: list_ex_iff)
    with False have "\<not> ?P x" by (auto simp: list_ex_iff)
    with x(1) have "length (filter ?P prev) < length prev"
      by (rule length_filter_less)
    with False show ?thesis by (simp add: mergeInsert_def Let_def)
  qed
qed

lemma mergeInsert_twice: "mergeInsert r (mergeInsert r prev) = mergeInsert r prev"
  by (auto simp: mergeInsert_def Let_def list_ex_iff)

text \<open>
  Claim C6, as amended: for every visible list and every insert notification for a row
  whose identifier is already in the list, the merge adds no entry. It leaves the list
  unchanged when the list holds no provisional entry with the row's sender and content;
  otherwise, the row's identifier not being a provisional one, it removes exactly those
  provisional entries. Merging the same notification once more leaves its result unchanged.
\<close>

theorem mergeInsert_row_present:
  assumes "list_ex (\<lambda>m. m_id m = m_id r) prev"
  shows "length (mergeInsert r prev) \<le> length prev
       \<and> ((\<forall>msg \<in> set prev. \<not> (startsWith (m_id msg) ''temp-'' \<and> content msg = content r
                                  \<and> sender_id msg = sender_id r))
            \<longrightarrow> mergeInsert r prev = prev)
       \<and> (\<not> startsWith (m_id r) ''temp-''
            \<longrightarrow> mergeInsert r prev
                  = filter (\<lambda>msg. \<not> (startsWith (m_id msg) ''temp-'' \<and> content msg = content r
                                      \<and> sender_id msg = sender_id r)) prev)
       \<and> mergeInsert r (mergeInsert r prev) = mergeInsert r prev"
  using assms mergeInsert_length mergeInsert_unchanged mergeInsert_present mergeInsert_twice
  by blast

theorem mergeInsert_row_present_witness:
  "list_ex (\<lambda>m. m_id m = m_id rowM2) [rowM1, rowM2]
   \<and> mergeInsert rowM2 [rowM1, rowM2] = [rowM1, rowM2]
   \<and> list_ex (\<lambda>m. m_id m = m_id rowM2) [rowM2, provisionalEntry, rowM1]
   \<and> mergeInsert rowM2 [rowM2, provisionalEntry, rowM1] = [rowM2, rowM1]
   \<and> mergeInsert rowM2 (mergeInsert rowM2 [rowM2, provisionalEntry, rowM1]) = [rowM2, rowM1]"
proof -
  have a: "list_ex (\<lambda>m. m_id m = m_id rowM2) [rowM1, rowM2]" by simp
  have b: "list_ex (\<lambda>m. m_id m = m_id rowM2) [rowM2, provisionalEntry, rowM1]" by simp
  have c: "\<forall>msg \<in> set [rowM1, rowM2].
             \<not> (startsWith (m_id msg) ''temp-'' \<and> content msg = content rowM2
                 \<and> sender_id msg = sender_id rowM2)"
    by (simp add: rowM1_def rowM2_def startsWith_def)
  have d: "\<not> startsWith (m_id rowM2) ''temp-''" by (simp add: rowM2_def startsWith_def)
  have e: "filter (\<lambda>msg. \<not> (startsWith (m_id msg) ''temp-'' \<and> content msg = content rowM2
                            \<and> sender_id msg = sender_id rowM2)) [rowM2, provisionalEntry, rowM1]
             = [rowM2, rowM1]"
    by (simp add: rowM1_def rowM2_def provisionalEntry_def tempId_def optimisticIdOf_def
          startsWith_def)
  note ta = mergeInsert_row_present [OF a]
  note tb = mergeInsert_row_present [OF b]
  from ta c have 1: "mergeInsert rowM2 [rowM1, rowM2] = [rowM1, rowM2]" by blast
  from tb have f: "\<not> startsWith (m_id rowM2) ''temp-''
      \<longrightarrow> mergeInsert rowM2 [rowM2, provisionalEntry, rowM1]
            = filter (\<lambda>msg. \<not> (startsWith (m_id msg) ''temp-'' \<and> content msg = content rowM2
                                \<and> sender_id msg = sender_id rowM2)) [rowM2, provisionalEntry, rowM1]"
    by blast
  from tb have g: "mergeInsert rowM2 (mergeInsert rowM2 [rowM2, provisionalEntry, rowM1])
              = mergeInsert rowM2 [rowM2, provisionalEntry, rowM1]"
    by blast
  have 2: "mergeInsert rowM2 [rowM2, provisionalEntry, rowM1] = [rowM2, rowM1]"
    using mp [OF f d] e by (rule trans)
  have 3: "mergeInsert rowM2 (mergeInsert rowM2 [rowM2, provisionalEntry, rowM1])
             = [rowM2, rowM1]"
    using g 2 by (rule trans)
  show ?thesis
    by (rule conjI [OF a conjI [OF 1 conjI [OF b conjI [OF 2 3]]]])
qed

text \<open>
  Claim C6 as stated fails. The user sends \<open>hello\<close> and the reply puts the row \<open>m2\<close> into
  the list; the user sends \<open>hello\<close> again, which appends a second provisional entry; the
  push notification for \<open>m2\<close>, whose identifier is already in the list, then removes that
  provisional entry: the list is not left unchanged.
\<close>

theorem merge_present_row_drops_provisional:
  "map m_id
     (fst (sendMessage envA ''1752141660000'' ''0.25'' ''2025-07-10T10:01:00.000Z'' ''hello''
             Text Neutral
        (fst (sendMessage_reply aliceAuth None ''2025-07-10T10:00:33.500Z''
                ''2025-07-10T10:00:33.500Z'' tempId ''hello'' Text Neutral (Data rowM2)
           (fst (sendMessage envA ''1752141600000'' ''0.5'' ''2025-07-10T10:00:00.000Z''
                   ''hello'' Text Neutral []))))))
     = [''m2'', ''temp-1752141660000-0.25'']
   \<and> map m_id
     (onInsert (Some rowM2) None
       (fst (sendMessage envA ''1752141660000'' ''0.25'' ''2025-07-10T10:01:00.000Z'' ''hello''
               Text Neutral
          (fst (sendMessage_reply aliceAuth None ''2025-07-10T10:00:33.500Z''
                  ''2025-07-10T10:00:33.500Z'' tempId ''hello'' Text Neutral (Data rowM2)
             (fst (sendMessage envA ''1752141600000'' ''0.5'' ''2025-07-10T10:00:00.000Z''
                     ''hello'' Text Neutral [])))))))
     = [''m2'']"
  by (simp add: sendMessage_def sendMessage_reply_def onInsert_def mergeInsert_def envA_def
        aliceAuth_def rowM2_def tempId_def optimisticIdOf_def startsWith_def trim_def
        whiteSpace_def)

section \<open>Conversation switches\<close>




section \<open>Manual retry\<close>

text \<open>
  Claim C8: the manual retry re-submits the original content of a failed or permanently
  failed entry, without the marker. The code does neither. The pattern that strips the
  marker is anchored at the start of the content, where the symbol of the marker stands,
  so the failed entry is re-sent with its marker, and that is the content of the new
  create request; and the guard asks for the text \<open>Failed to send:\<close>, which a
  permanently failed entry does not contain, so for it nothing is sent.
\<close>

theorem handleRetryMessage_keeps_marker_and_skips_permanent:
  "handleRetryMessage failedEntry = Some (failedMarker @ ''hello'', Text, Happy)
   \<and> failedMarker @ ''hello'' \<noteq> ''hello''
   \<and> snd (sendMessage envA ''1752141660000'' ''0.25'' ''2025-07-10T10:01:00.000Z''
             (failedMarker @ ''hello'') Text Happy [failedEntry])
       = [CreateRequest \<lparr> q_chat_id = ''chatA'', q_sender_id = ''u1'',
                           q_content = failedMarker @ ''hello'', q_type = Text, q_mood = Happy \<rparr>]
   \<and> handleRetryMessage permFailedEntry = None"
  by (simp add: handleRetryMessage_def failedEntry_def permFailedEntry_def provisionalEntry_def
        failedMarker_def permanentMarker_def stripFailurePrefix_def startsWith_def tempId_def
        optimisticIdOf_def sendMessage_def envA_def aliceAuth_def trim_def whiteSpace_def)

section \<open>Typing indicator\<close>

text \<open>
  Claim C9: a typing=true signal of another participant, received at time \<open>T\<close>, puts the
  participant into the typing list; whatever signals arrive afterwards, as long as none
  of them is a typing=true signal of that participant, the participant is not in the list
  once the event loop has reached \<open>T + 3000\<close>. A typing=false signal of another
  participant removes the participant at once.
\<close>

theorem typing_expiry:
  "(user_id p \<noteq> me \<and> is_typing p
      \<and> (\<forall>ev \<in> set evs. \<not> (is_typing (snd ev) \<and> user_id (snd ev) = user_id p))
     \<longrightarrow> list_ex (\<lambda>u. t_id u = user_id p) (typingUsers (onTyping me T p st))
       \<and> \<not> list_ex (\<lambda>u. t_id u = user_id p)
             (typingUsers (advance (T + 3000) (run me evs (onTyping me T p st)))))
   \<and> (user_id q \<noteq> me \<and> \<not> is_typing q
     \<longrightarrow> \<not> list_ex (\<lambda>u. t_id u = user_id q) (typingUsers (onTyping me T' q st')))"
proof (intro conjI impI)
  assume h: "user_id p \<noteq> me \<and> is_typing p
      \<and> (\<forall>ev \<in> set evs. \<not> (is_typing (snd ev) \<and> user_id (snd ev) = user_id p))"
  then show "list_ex (\<lambda>u. t_id u = user_id p) (typingUsers (onTyping me T p st))"
    by (simp add: onTyping_def)
  from h have "expiring (user_id p) (T + 3000) (run me evs (onTyping me T p st))"
    by (intro expiring_run expiring_start) auto
  then show "\<not> list_ex (\<lambda>u. t_id u = user_id p)
                 (typingUsers (advance (T + 3000) (run me evs (onTyping me T p st))))"
    by (rule expiring_end)
next
  assume "user_id q \<noteq> me \<and> \<not> is_typing q"
  then show "\<not> list_ex (\<lambda>u. t_id u = user_id q) (typingUsers (onTyping me T' q st'))"
    by (simp add: onTyping_def list_ex_iff)
qed

theorem typing_expiry_witness:
  "user_id bobTyping \<noteq> ''u1'' \<and> is_typing bobTyping
   \<and> \<not> (is_typing carolTyping \<and> user_id carolTyping = user_id bobTyping)
   \<and> list_ex (\<lambda>u. t_id u = ''u2'') (typingUsers (onTyping ''u1'' 1000 bobTyping noTyping))
   \<and> \<not> list_ex (\<lambda>u. t_id u = ''u2'') (typingUsers (advance (1000 + 3000)
                 (run ''u1'' [(2000, carolTyping)] (onTyping ''u1'' 1000 bobTyping noTyping))))
   \<and> user_id bobStops \<noteq> ''u1'' \<and> \<not> is_typing bobStops
   \<and> \<not> list_ex (\<lambda>u. t_id u = ''u2'')
         (typingUsers (onTyping ''u1'' 2500 bobStops (onTyping ''u1'' 1000 bobTyping noTyping)))"
  using typing_expiry [of bobTyping "''u1''" "[(2000, carolTyping)]" 1000 noTyping bobStops 2500
                          "onTyping ''u1'' 1000 bobTyping noTyping"]
  by (simp add: bobTyping_def bobStops_def carolTyping_def)

section \<open>The guard of sendMessage\<close>

text \<open>
  Claim C10: called with content that is empty after trimming, with no open conversation
  or with no authenticated user, \<open>sendMessage\<close> returns the list as it was and issues no
  request.
\<close>

theorem sendMessage_guard:
  "\<not> truthy (chatId e) \<or> user e = None \<or> trim c = [] \<Longrightarrow>
     sendMessage e nowMs rnd now c ty md prev = (prev, [])"
  by (auto simp: sendMessage_def split: option.splits)

theorem sendMessage_guard_witness:
  "trim ''  '' = []
   \<and> sendMessage envA ''1752141600000'' ''0.5'' ''2025-07-10T10:00:00.000Z'' ''  '' Text Neutral
       [rowM2] = ([rowM2], [])
   \<and> \<not> truthy (chatId envNoChat)
   \<and> sendMessage envNoChat ''1752141600000'' ''0.5'' ''2025-07-10T10:00:00.000Z'' ''hello'' Text
       Neutral [rowM2] = ([rowM2], [])
   \<and> user envNoUser = None
   \<and> sendMessage envNoUser ''1752141600000'' ''0.5'' ''2025-07-10T10:00:00.000Z'' ''hello'' Text
       Neutral [rowM2] = ([rowM2], [])"
  using sendMessage_guard [of envA "''  ''" "''1752141600000''" "''0.5''"
          "''2025-07-10T10:00:00.000Z''" Text Neutral "[rowM2]"]
        sendMessage_guard [of envNoChat "''hello''" "''1752141600000''" "''0.5''"
          "''2025-07-10T10:00:00.000Z''" Text Neutral "[rowM2]"]
        sendMessage_guard [of envNoUser "''hello''" "''1752141600000''" "''0.5''"
          "''2025-07-10T10:00:00.000Z''" Text Neutral "[rowM2]"]
  by (simp add: trim_def whiteSpace_def startsWith_def envNoChat_def envNoUser_def)

end
